theory Spec2Isabelle
  imports Complex_Main
begin

section \<open>Conventions\<close>

text \<open>
  The scene is a React / three.js program.  JavaScript numbers and GLSL floats are
  modelled as exact numbers: \<open>real\<close> for coordinates, times and progress values,
  \<open>int\<close> for the photo offset and the featured index (which only ever hold integers).
  Rounding of floating-point arithmetic is outside this model.  A React state hook is a
  field of a state record, an event handler is a function from the state to the next
  state, and a \<open>useFrame\<close> callback is a function applied once per rendered frame.
\<close>

section \<open>types.ts\<close>

datatype TreeState = CHAOS | FORMED

definition treeHeight :: real where
  "treeHeight = 14"

definition treeRadius :: real where
  "treeRadius = 5"

definition particleCount :: nat where
  "particleCount = 8000"

section \<open>App: mode toggle, photo upload, slideshow offset\<close>

definition DEFAULT_PHOTOS :: "string list" where
  "DEFAULT_PHOTOS =
    [''https://picsum.photos/seed/luxury1/800/800'',
     ''https://picsum.photos/seed/xmas2/800/800'',
     ''https://picsum.photos/seed/winter3/800/800'',
     ''https://picsum.photos/seed/gold4/800/800'',
     ''https://picsum.photos/seed/snow5/800/800'',
     ''https://picsum.photos/seed/star6/800/800'']"

text \<open>
  The component state of \<open>App\<close>.  \<open>revokedURLs\<close> is not React state: it records the
  calls of \<open>URL.revokeObjectURL\<close>, the one effect of the upload handler on the browser.
\<close>

record App =
  treeState :: TreeState
  snowEnabled :: bool
  userPhotos :: "string list"
  photoOffset :: int
  isProcessing :: bool
  revokedURLs :: "string list"

definition App_init :: App where
  "App_init = \<lparr>treeState = FORMED, snowEnabled = True, userPhotos = DEFAULT_PHOTOS,
     photoOffset = 0, isProcessing = False, revokedURLs = []\<rparr>"

definition toggleState :: "App \<Rightarrow> App" where
  "toggleState st =
     st\<lparr>treeState := (if treeState st = CHAOS then FORMED else CHAOS)\<rparr>"

definition toggleSnow :: "App \<Rightarrow> App" where
  "toggleSnow st = st\<lparr>snowEnabled := \<not> snowEnabled st\<rparr>"

text \<open>\<open>String.prototype.startsWith\<close>.\<close>

definition startsWith :: "string \<Rightarrow> string \<Rightarrow> bool" where
  "startsWith s p = (take (length p) s = p)"

text \<open>A browser \<open>File\<close>: only its MIME type is read by the handler.\<close>

record File =
  file_name :: string
  file_type :: string

text \<open>
  \<open>handlePhotoUpload\<close>.  \<open>files\<close> is \<open>event.target.files\<close>, which may be null;
  \<open>createObjectURL\<close> is the browser's \<open>URL.createObjectURL\<close>, taken as a parameter.
  An empty \<open>file.type\<close> is falsy, so the test \<open>file.type && ...\<close> is written out.
\<close>

definition handlePhotoUpload :: "(File \<Rightarrow> string) \<Rightarrow> File list option \<Rightarrow> App \<Rightarrow> App" where
  "handlePhotoUpload createObjectURL files st =
     (case files of
        None \<Rightarrow> st
      | Some fileArray \<Rightarrow>
          if length fileArray > 0 then
            let st1 = st\<lparr>isProcessing := True\<rparr>;
                st2 = st1\<lparr>revokedURLs :=
                        revokedURLs st1 @ filter (\<lambda>url. startsWith url ''blob:'') (userPhotos st)\<rparr>;
                newPhotos = map createObjectURL
                              (filter (\<lambda>file. file_type file \<noteq> [] \<and>
                                               startsWith (file_type file) ''image/'') fileArray);
                st3 = (if length newPhotos > 0
                       then st2\<lparr>userPhotos := newPhotos, photoOffset := 0\<rparr>
                       else st2)
            in st3\<lparr>isProcessing := False\<rparr>
          else st)"

text \<open>
  The remainder operator \<open>%\<close> of JavaScript truncates towards zero: the result has the
  sign of the dividend.
\<close>

definition js_rem :: "int \<Rightarrow> int \<Rightarrow> int" where
  "js_rem a b = sgn a * (\<bar>a\<bar> mod \<bar>b\<bar>)"

definition handleNextPhoto :: "App \<Rightarrow> App" where
  "handleNextPhoto st =
     (if length (userPhotos st) = 0 then st
      else st\<lparr>photoOffset := js_rem (photoOffset st + 1) (int (length (userPhotos st)))\<rparr>)"

definition handlePrevPhoto :: "App \<Rightarrow> App" where
  "handlePrevPhoto st =
     (if length (userPhotos st) = 0 then st
      else st\<lparr>photoOffset :=
                js_rem (photoOffset st - 1 + int (length (userPhotos st)))
                       (int (length (userPhotos st)))\<rparr>)"

text \<open>A run of upload events, each with its own file selection.\<close>

fun uploads :: "(File \<Rightarrow> string) \<Rightarrow> File list option list \<Rightarrow> App \<Rightarrow> App" where
  "uploads createObjectURL [] st = st"
| "uploads createObjectURL (files # rest) st =
     uploads createObjectURL rest (handlePhotoUpload createObjectURL files st)"


section \<open>Experience\<close>

text \<open>\<open>Experience\<close> turns the mode into the flag every child component receives.\<close>

definition Experience_isFormed :: "TreeState \<Rightarrow> bool" where
  "Experience_isFormed ts = (ts = FORMED)"

section \<open>three.js vectors\<close>

text \<open>
  \<open>THREE.Vector3\<close> (also used for Euler angles, which the code only reads and writes
  componentwise).  The methods mutate their receiver; here each returns the new value.
\<close>

record Vector3 =
  vx :: real
  vy :: real
  vz :: real

definition v_add :: "Vector3 \<Rightarrow> Vector3 \<Rightarrow> Vector3" where
  "v_add a b = \<lparr>vx = vx a + vx b, vy = vy a + vy b, vz = vz a + vz b\<rparr>"

definition v_sub :: "Vector3 \<Rightarrow> Vector3 \<Rightarrow> Vector3" where
  "v_sub a b = \<lparr>vx = vx a - vx b, vy = vy a - vy b, vz = vz a - vz b\<rparr>"

definition multiplyScalar :: "Vector3 \<Rightarrow> real \<Rightarrow> Vector3" where
  "multiplyScalar a s = \<lparr>vx = vx a * s, vy = vy a * s, vz = vz a * s\<rparr>"

text \<open>\<open>THREE.MathUtils.lerp\<close> and \<open>Vector3.lerp\<close>.\<close>

definition lerp :: "real \<Rightarrow> real \<Rightarrow> real \<Rightarrow> real" where
  "lerp x y t = (1 - t) * x + t * y"

definition v_lerp :: "Vector3 \<Rightarrow> Vector3 \<Rightarrow> real \<Rightarrow> Vector3" where
  "v_lerp a v alpha =
     \<lparr>vx = vx a + (vx v - vx a) * alpha,
      vy = vy a + (vy v - vy a) * alpha,
      vz = vz a + (vz v - vz a) * alpha\<rparr>"

section \<open>TreeParticles: the foliage cloud\<close>

text \<open>
  GLSL \<open>pow(x, y)\<close> with a float exponent; its result is undefined for a negative base.
\<close>

definition glsl_pow :: "real \<Rightarrow> real \<Rightarrow> real" where
  "glsl_pow x y = x powr y"

definition easeOutCubic :: "real \<Rightarrow> real" where
  "easeOutCubic x = 1 - glsl_pow (1 - x) 3"

text \<open>The two uniforms of \<open>FoliageMaterial\<close> that the host writes.\<close>

record FoliageMaterial =
  uTime :: real
  uProgress :: real

text \<open>
  The \<open>useFrame\<close> callback of \<open>TreeParticles\<close>.  \<open>materialRef\<close> is \<open>None\<close> while the
  material is not mounted; then the callback does nothing.
\<close>

definition TreeParticles_useFrame ::
  "bool \<Rightarrow> real \<Rightarrow> real \<Rightarrow> FoliageMaterial option \<Rightarrow> FoliageMaterial option" where
  "TreeParticles_useFrame isFormed elapsedTime delta materialRef =
     (case materialRef of
        None \<Rightarrow> None
      | Some m \<Rightarrow>
          let m1 = m\<lparr>uTime := elapsedTime\<rparr>;
              targetProgress = (if isFormed then 1 else 0)
          in Some (m1\<lparr>uProgress := lerp (uProgress m1) targetProgress (delta * 1.5)\<rparr>))"

text \<open>One rendered frame: the mode shown in it, the clock and the time since the last frame.\<close>

record Frame =
  frame_isFormed :: bool
  frame_elapsedTime :: real
  frame_delta :: real

fun TreeParticles_frames :: "Frame list \<Rightarrow> FoliageMaterial option \<Rightarrow> FoliageMaterial option" where
  "TreeParticles_frames [] materialRef = materialRef"
| "TreeParticles_frames (f # fs) materialRef =
     TreeParticles_frames fs
       (TreeParticles_useFrame (frame_isFormed f) (frame_elapsedTime f) (frame_delta f) materialRef)"

section \<open>Ornaments: per-entity physics\<close>

record Ornament =
  chaosPos :: Vector3
  targetPos :: Vector3
  currentPos :: Vector3
  velocity :: Vector3
  rotation :: Vector3
  rotVelocity :: Vector3
  mass :: real
  phase :: real

text \<open>
  What \<open>mesh.setMatrixAt\<close> stores for one instance: the matrix that \<open>updateMatrix\<close>
  composes from position, rotation and uniform scale, kept as these three parts.  The
  instance buffer is a typed array of fixed length: a write past its end is dropped.
\<close>

record Instance =
  inst_position :: Vector3
  inst_rotation :: Vector3
  inst_scale :: real

definition dest :: "bool \<Rightarrow> Ornament \<Rightarrow> Vector3" where
  "dest isFormed item = (if isFormed then targetPos item else chaosPos item)"

text \<open>
  The body of the loop of \<open>updatePhysics\<close> for the item at index \<open>i\<close>, one binding per
  mutation, in the order of the source.
\<close>

definition updateItem ::
  "bool \<Rightarrow> real \<Rightarrow> real \<Rightarrow> real \<Rightarrow> real \<Rightarrow> real \<Rightarrow> real \<Rightarrow> bool \<Rightarrow> nat \<Rightarrow> Ornament
     \<Rightarrow> Ornament \<times> Instance" where
  "updateItem isFormed dt time scaleBase stiffness damping noiseStrength orientToUp i item =
     (let tempVec = multiplyScalar (v_sub (dest isFormed item) (currentPos item))
                      (stiffness / mass item);
          item1 = item\<lparr>velocity := v_add (velocity item) tempVec\<rparr>;
          item2 =
            (if \<not> isFormed then
               let noiseX = sin (time * 0.5 + phase item1) * noiseStrength;
                   noiseY = cos (time * 0.3 + phase item1 * 2) * noiseStrength;
                   noiseZ = sin (time * 0.7 + phase item1 * 0.5) * noiseStrength
               in item1\<lparr>velocity :=
                          v_add (velocity item1) \<lparr>vx = noiseX, vy = noiseY, vz = noiseZ\<rparr>\<rparr>
             else item1);
          item3 = item2\<lparr>velocity := multiplyScalar (velocity item2) damping\<rparr>;
          item4 = item3\<lparr>currentPos :=
                          v_add (currentPos item3) (multiplyScalar (velocity item3) (dt * 60))\<rparr>;
          item5 =
            (if \<not> isFormed then
               item4\<lparr>rotation := v_add (rotation item4) (rotVelocity item4)\<rparr>
             else
               item4\<lparr>rotation := (rotation item4)\<lparr>vy := vy (rotation item4) + 0.01\<rparr>\<rparr>);
          tempObj_rotation =
            (if orientToUp \<and> isFormed then \<lparr>vx = pi, vy = 0, vz = 0\<rparr> else rotation item5);
          s = scaleBase + sin (time + real i) * 0.05
      in (item5,
          \<lparr>inst_position = currentPos item5, inst_rotation = tempObj_rotation, inst_scale = s\<rparr>))"

text \<open>
  \<open>updatePhysics\<close>: the loop over \<open>items\<close>.  It returns the updated items and the
  instance transforms written to the mesh, index by index.
\<close>

definition updatePhysics ::
  "bool \<Rightarrow> real \<Rightarrow> real \<Rightarrow> Ornament list \<Rightarrow> real \<Rightarrow> real \<Rightarrow> real \<Rightarrow> real \<Rightarrow> bool
     \<Rightarrow> (Ornament \<times> Instance) list" where
  "updatePhysics isFormed dt time items scaleBase stiffness damping noiseStrength orientToUp =
     map (\<lambda>i. updateItem isFormed dt time scaleBase stiffness damping noiseStrength orientToUp
                 i (items ! i))
       [0 ..< length items]"

text \<open>The five instanced batches of \<open>Ornaments\<close> and the constants each is updated with.\<close>

datatype Batch = Balls | Boxes | Diamonds | Rings | Icicles

record PhysicsArgs =
  arg_scaleBase :: real
  arg_stiffness :: real
  arg_damping :: real
  arg_noiseStrength :: real
  arg_orientToUp :: bool

fun physicsArgs :: "Batch \<Rightarrow> PhysicsArgs" where
  "physicsArgs Balls = \<lparr>arg_scaleBase = 1.0, arg_stiffness = 0.05, arg_damping = 0.92,
     arg_noiseStrength = 0.02, arg_orientToUp = False\<rparr>"
| "physicsArgs Boxes = \<lparr>arg_scaleBase = 0.6, arg_stiffness = 0.04, arg_damping = 0.90,
     arg_noiseStrength = 0.03, arg_orientToUp = False\<rparr>"
| "physicsArgs Diamonds = \<lparr>arg_scaleBase = 0.5, arg_stiffness = 0.06, arg_damping = 0.94,
     arg_noiseStrength = 0.04, arg_orientToUp = False\<rparr>"
| "physicsArgs Rings = \<lparr>arg_scaleBase = 0.4, arg_stiffness = 0.05, arg_damping = 0.93,
     arg_noiseStrength = 0.02, arg_orientToUp = False\<rparr>"
| "physicsArgs Icicles = \<lparr>arg_scaleBase = 0.5, arg_stiffness = 0.05, arg_damping = 0.93,
     arg_noiseStrength = 0.02, arg_orientToUp = True\<rparr>"

text \<open>
  One batch: its items and its mesh (\<open>None\<close> while the mesh ref is null, otherwise the
  instance transforms).
\<close>

record OrnamentBatch =
  batch_items :: "Ornament list"
  batch_mesh :: "Instance list option"

text \<open>
  The \<open>useFrame\<close> callback of \<open>Ornaments\<close>, for one batch: the time step is clamped,
  and the batch is updated when its mesh is mounted.  (The one-time colouring of the
  instances that follows in the source does not touch positions or velocities and is
  left out.)
\<close>

definition Ornaments_useFrame ::
  "bool \<Rightarrow> real \<Rightarrow> real \<Rightarrow> Batch \<Rightarrow> OrnamentBatch \<Rightarrow> OrnamentBatch" where
  "Ornaments_useFrame isFormed elapsedTime delta b batch =
     (let dt = min delta 0.1;
          time = elapsedTime
      in case batch_mesh batch of
           None \<Rightarrow> batch
         | Some mesh \<Rightarrow>
             let r = updatePhysics isFormed dt time (batch_items batch)
                       (arg_scaleBase (physicsArgs b)) (arg_stiffness (physicsArgs b))
                       (arg_damping (physicsArgs b)) (arg_noiseStrength (physicsArgs b))
                       (arg_orientToUp (physicsArgs b))
             in \<lparr>batch_items = map fst r,
                 batch_mesh =
                   Some (map (\<lambda>i. if i < length r then snd (r ! i) else mesh ! i)
                           [0 ..< length mesh])\<rparr>)"


section \<open>Photos\<close>

record Quaternion =
  qx :: real
  qy :: real
  qz :: real
  qw :: real

record Camera =
  cam_position :: Vector3
  cam_quaternion :: Quaternion

text \<open>
  The methods of three.js that \<open>PhotoItem\<close> calls and whose bodies are library code:
  \<open>Vector3.applyQuaternion\<close>, \<open>Quaternion.setFromEuler\<close> (of the Euler angles x, y, z)
  and \<open>Quaternion.slerp\<close>.  They are parameters of the model.
\<close>

record Three =
  applyQuaternion :: "Vector3 \<Rightarrow> Quaternion \<Rightarrow> Vector3"
  setFromEuler :: "Vector3 \<Rightarrow> Quaternion"
  slerp :: "Quaternion \<Rightarrow> Quaternion \<Rightarrow> real \<Rightarrow> Quaternion"

type_synonym triple = "real \<times> real \<times> real"

record DualPosition =
  chaos :: triple
  target :: triple
  rotationChaos :: triple
  rotationTarget :: triple

text \<open>\<open>Vector3.set\<close> from the three entries of an array.\<close>

fun v_set :: "triple \<Rightarrow> Vector3" where
  "v_set (a, b, c) = \<lparr>vx = a, vy = b, vz = c\<rparr>"

text \<open>The group that \<open>meshRef\<close> points to: position, orientation and scale.\<close>

record PhotoMesh =
  mesh_position :: Vector3
  mesh_quaternion :: Quaternion
  mesh_scale :: Vector3

text \<open>
  What a \<open>PhotoItem\<close> keeps between frames: the mesh (\<open>None\<close> while not mounted) and
  the three scratch objects created once by \<open>useMemo\<close> and overwritten in place.
\<close>

record PhotoItemState =
  meshRef :: "PhotoMesh option"
  memo_targetPos :: Vector3
  memo_targetQuat :: Quaternion
  memo_forward :: Vector3

text \<open>
  The \<open>useFrame\<close> callback of \<open>PhotoItem\<close>.  In the featured branch
  \<open>forward.multiplyScalar(5)\<close> scales the scratch vector itself before it is added.
\<close>

definition PhotoItem_useFrame ::
  "Three \<Rightarrow> DualPosition \<Rightarrow> bool \<Rightarrow> bool \<Rightarrow> Camera \<Rightarrow> real \<Rightarrow> real
     \<Rightarrow> PhotoItemState \<Rightarrow> PhotoItemState" where
  "PhotoItem_useFrame three data isFormed isFeatured camera elapsedTime delta st =
     (case meshRef st of
        None \<Rightarrow> st
      | Some mesh \<Rightarrow>
          let lerpSpeed = (if isFeatured then 2.0 else 1.5);
              (st1, targetScale) =
                (if isFormed then
                   (st\<lparr>memo_targetPos := v_set (target data),
                       memo_targetQuat := setFromEuler three (v_set (rotationTarget data))\<rparr>,
                    1.2)
                 else if isFeatured then
                   let forward1 = applyQuaternion three \<lparr>vx = 0, vy = 0, vz = - 1\<rparr>
                                    (cam_quaternion camera);
                       forward2 = multiplyScalar forward1 5;
                       targetPos1 = v_add (cam_position camera) forward2;
                       targetPos2 = targetPos1\<lparr>vy := vy targetPos1 + 5\<rparr>
                   in (st\<lparr>memo_forward := forward2, memo_targetPos := targetPos2,
                          memo_targetQuat := cam_quaternion camera\<rparr>,
                       1.5)
                 else
                   (case rotationChaos data of (rx, ry, rz) \<Rightarrow>
                     (st\<lparr>memo_targetPos := v_set (chaos data),
                         memo_targetQuat := setFromEuler three
                           \<lparr>vx = rx + elapsedTime * 0.05, vy = ry + elapsedTime * 0.05,
                            vz = rz\<rparr>\<rparr>,
                      0.8)));
              mesh1 = mesh\<lparr>mesh_position :=
                             v_lerp (mesh_position mesh) (memo_targetPos st1) (delta * lerpSpeed)\<rparr>;
              mesh2 = mesh1\<lparr>mesh_quaternion :=
                              slerp three (mesh_quaternion mesh1) (memo_targetQuat st1)
                                (delta * lerpSpeed)\<rparr>;
              currentScale = vx (mesh_scale mesh2);
              nextScale = lerp currentScale targetScale (delta * lerpSpeed)
          in st1\<lparr>meshRef :=
                   Some (mesh2\<lparr>mesh_scale := \<lparr>vx = nextScale, vy = nextScale, vz = nextScale\<rparr>\<rparr>)\<rparr>)"

text \<open>
  \<open>Experience\<close> places everything in a group at [0, -5, 0]; the group is not rotated or
  scaled, so a position local to it is this far from its position in world space.
\<close>

definition Experience_groupPosition :: Vector3 where
  "Experience_groupPosition = \<lparr>vx = 0, vy = - 5, vz = 0\<rparr>"

definition localToWorld :: "Vector3 \<Rightarrow> Vector3" where
  "localToWorld v = v_add v Experience_groupPosition"

text \<open>
  The props of \<open>Photos\<close>.  \<open>userPhotos\<close> is \<open>None\<close> when the caller leaves it out
  (\<open>undefined\<close>).
\<close>

record PhotosProps =
  props_isFormed :: bool
  props_count :: nat
  props_userPhotos :: "string list option"
  props_photoOffset :: int

record PhotoItemProps =
  item_data :: DualPosition
  item_isFormed :: bool
  item_index :: nat
  item_url :: "string option"
  item_isFeatured :: bool

text \<open>
  The hooks of \<open>Photos\<close>: the \<open>featuredIndex\<close> state, the dependency value the
  effect last ran with (\<open>None\<close> before the first run) and the memoised \<open>photoData\<close>.
\<close>

record PhotosHooks =
  featuredIndex :: int
  effect_deps :: "bool option"
  photoData :: "DualPosition list"

definition totalCount :: nat where
  "totalCount = 12"

datatype js_error = TypeError

text \<open>Reading \<open>.length\<close>: a TypeError on \<open>undefined\<close>.\<close>

definition js_length :: "'a list option \<Rightarrow> js_error + nat" where
  "js_length xs = (case xs of None \<Rightarrow> Inl TypeError | Some l \<Rightarrow> Inr (length l))"

text \<open>
  \<open>getUrl\<close> for the props \<open>userPhotos\<close> and \<open>photoOffset\<close>; an array read outside the indices of the array gives \<open>undefined\<close>
  (\<open>None\<close>).
\<close>

definition getUrl :: "string list \<Rightarrow> int \<Rightarrow> nat \<Rightarrow> string option" where
  "getUrl photos offset index =
     (if length photos = 0 then Some []
      else let k = js_rem (int index + offset) (int (length photos))
           in if 0 \<le> k \<and> k < int (length photos) then Some (photos ! nat k) else None)"

text \<open>
  What one render of \<open>Photos\<close> returns: \<open>Inr None\<close> is the value \<open>null\<close>, \<open>Inr (Some items)\<close>
  the group of photo items, \<open>Inl\<close> an exception.  The guard \<open>!userPhotos || ...\<close> is
  short-circuit: the length is read only when the list is there.
\<close>

definition Photos :: "PhotosProps \<Rightarrow> PhotosHooks \<Rightarrow> js_error + PhotoItemProps list option" where
  "Photos props hooks =
     (if props_userPhotos props = None then Inr None
      else case js_length (props_userPhotos props) of
             Inl e \<Rightarrow> Inl e
           | Inr n \<Rightarrow>
               if n = 0 then Inr None
               else Inr (Some (map (\<lambda>i.
                      \<lparr>item_data = photoData hooks ! i,
                       item_isFormed = props_isFormed props,
                       item_index = i,
                       item_url = getUrl (the (props_userPhotos props))
                                    (props_photoOffset props) i,
                       item_isFeatured = (int i = featuredIndex hooks)\<rparr>)
                     [0 ..< length (photoData hooks)])))"

text \<open>
  The effect of \<open>Photos\<close> with dependency list \<open>[isFormed]\<close>, run after a render:
  React runs it after the first render and after every render in which \<open>isFormed\<close>
  differs from the value of the previous run.  \<open>random\<close> is what \<open>Math.random()\<close>
  returns if it is called.  A render that returned before the hooks runs no effect.
\<close>

definition Photos_effect :: "PhotosProps \<Rightarrow> real \<Rightarrow> PhotosHooks \<Rightarrow> PhotosHooks" where
  "Photos_effect props random hooks =
     (case Photos props hooks of
        Inr (Some items) \<Rightarrow>
          if effect_deps hooks = Some (props_isFormed props) then hooks
          else
            let hooks1 =
                  (if \<not> props_isFormed props
                   then hooks\<lparr>featuredIndex := \<lfloor>random * real totalCount\<rfloor>\<rparr>
                   else hooks)
            in hooks1\<lparr>effect_deps := Some (props_isFormed props)\<rparr>
      | _ \<Rightarrow> hooks)"


section \<open>Entity generation\<close>

text \<open>
  \<open>Math.random()\<close> is not seeded.  A generator takes the values it returns as a
  parameter: \<open>rand k\<close> is the result of call number \<open>k\<close> (from 0) made inside one
  \<open>useMemo\<close> callback; JavaScript guarantees each result is in [0, 1).  \<open>Math.cbrt\<close>
  is \<open>root 3\<close>, \<open>Math.acos\<close> is \<open>arccos\<close>.
\<close>

text \<open>The four \<open>Float32Array\<close>s of the foliage geometry, each of a fixed length.\<close>

record Geometry =
  positions :: "real list"
  targets :: "real list"
  scales :: "real list"
  randoms :: "real list"

text \<open>\<open>TypedArray.set\<close> of a three-element array at an offset.\<close>

definition set3 :: "real list \<Rightarrow> real \<Rightarrow> real \<Rightarrow> real \<Rightarrow> nat \<Rightarrow> real list" where
  "set3 arr a b c off = arr[off := a, off + 1 := b, off + 2 := c]"

text \<open>
  The body of the loop of \<open>TreeParticles\<close> for particle \<open>i\<close>: it makes six calls of
  \<open>Math.random()\<close>, the calls 6 i to 6 i + 5 of the whole loop.  The first three give
  the chaos position, the fourth the target position.
\<close>

definition particleChaos :: "(nat \<Rightarrow> real) \<Rightarrow> nat \<Rightarrow> Vector3" where
  "particleChaos rand i =
     (let r = root 3 (rand (6 * i)) * 15;
          theta = rand (6 * i + 1) * pi * 2;
          phi = arccos (2 * rand (6 * i + 2) - 1);
          cx = r * sin phi * cos theta;
          cy = r * sin phi * sin theta + 7;
          cz = r * cos phi
      in \<lparr>vx = cx, vy = cy, vz = cz\<rparr>)"

definition particleTarget :: "(nat \<Rightarrow> real) \<Rightarrow> nat \<Rightarrow> Vector3" where
  "particleTarget rand i =
     (let h = treeHeight;
          y = rand (6 * i + 3) * h;
          levelRadius = (1 - y / h) * treeRadius;
          spiralAngle = real i * 2.39996;
          tx = levelRadius * cos spiralAngle;
          ty = y;
          tz = levelRadius * sin spiralAngle
      in \<lparr>vx = tx, vy = ty, vz = tz\<rparr>)"

definition genParticle :: "(nat \<Rightarrow> real) \<Rightarrow> nat \<Rightarrow> Geometry \<Rightarrow> Geometry" where
  "genParticle rand i g =
     (let c = particleChaos rand i;
          g1 = g\<lparr>positions := set3 (positions g) (vx c) (vy c) (vz c) (i * 3)\<rparr>;
          t = particleTarget rand i;
          g2 = g1\<lparr>targets := set3 (targets g1) (vx t) (vy t) (vz t) (i * 3)\<rparr>;
          g3 = g2\<lparr>scales := (scales g2)[i := rand (6 * i + 4) * 0.5 + 0.5]\<rparr>
      in g3\<lparr>randoms := (randoms g3)[i := rand (6 * i + 5)]\<rparr>)"

text \<open>The loop \<open>for (let i = 0; i < n; i++)\<close>: the body for \<open>n - 1\<close> runs last.\<close>

fun genParticles :: "(nat \<Rightarrow> real) \<Rightarrow> nat \<Rightarrow> Geometry \<Rightarrow> Geometry" where
  "genParticles rand 0 g = g"
| "genParticles rand (Suc n) g = genParticle rand n (genParticles rand n g)"

definition TreeParticles_geometry :: "(nat \<Rightarrow> real) \<Rightarrow> nat \<Rightarrow> Geometry" where
  "TreeParticles_geometry rand count =
     genParticles rand count
       \<lparr>positions = replicate (count * 3) 0, targets = replicate (count * 3) 0,
        scales = replicate count 0, randoms = replicate count 0\<rparr>"

text \<open>Particle \<open>i\<close> of a geometry, as the buffer attributes of item size 3 are read.\<close>

definition chaosOf :: "Geometry \<Rightarrow> nat \<Rightarrow> Vector3" where
  "chaosOf g i = \<lparr>vx = positions g ! (i * 3), vy = positions g ! (i * 3 + 1),
                  vz = positions g ! (i * 3 + 2)\<rparr>"

definition targetOf :: "Geometry \<Rightarrow> nat \<Rightarrow> Vector3" where
  "targetOf g i = \<lparr>vx = targets g ! (i * 3), vy = targets g ! (i * 3 + 1),
                   vz = targets g ! (i * 3 + 2)\<rparr>"

datatype OrnamentType = inner | outer | scatter

text \<open>
  How many calls of \<open>Math.random()\<close> one iteration of \<open>usePhysicsOrnaments\<close> makes:
  the types inner and outer draw one more, for the factor of the level radius.
\<close>

definition callsPerOrnament :: "OrnamentType \<Rightarrow> nat" where
  "callsPerOrnament ty = (if ty = scatter then 13 else 14)"

text \<open>
  The body of the loop of \<open>usePhysicsOrnaments\<close>; \<open>rnd j\<close> is call number \<open>j\<close> of this
  iteration, and \<open>e\<close> is 1 when the factor has been drawn.
\<close>

definition genOrnament :: "OrnamentType \<Rightarrow> (nat \<Rightarrow> real) \<Rightarrow> Ornament" where
  "genOrnament ty rnd =
     (let r = root 3 (rnd 0) * 18 + 5;
          theta = rnd 1 * pi * 2;
          phi = arccos (2 * rnd 2 - 1);
          cx = r * sin phi * cos theta;
          cy = r * sin phi * sin theta;
          cz = r * cos phi;
          h = treeHeight;
          y = rnd 3 * h * 0.9;
          levelRadius0 = (1 - y / h) * treeRadius;
          levelRadius1 = (if ty = inner then levelRadius0 * (0.5 + rnd 4 * 0.3) else levelRadius0);
          levelRadius = (if ty = outer then levelRadius1 * (0.9 + rnd 4 * 0.2) else levelRadius1);
          e = (if ty = scatter then 0 else 1);
          angle = rnd (4 + e) * pi * 2;
          tx = levelRadius * cos angle;
          ty' = y;
          tz = levelRadius * sin angle;
          rot = \<lparr>vx = rnd (5 + e) * pi, vy = rnd (6 + e) * pi, vz = rnd (7 + e) * pi\<rparr>
      in \<lparr>chaosPos = \<lparr>vx = cx, vy = cy, vz = cz\<rparr>,
          targetPos = \<lparr>vx = tx, vy = ty', vz = tz\<rparr>,
          currentPos = \<lparr>vx = tx, vy = ty', vz = tz\<rparr>,
          velocity = \<lparr>vx = 0, vy = 0, vz = 0\<rparr>,
          rotation = rot,
          rotVelocity = \<lparr>vx = (rnd (8 + e) - 0.5) * 0.2, vy = (rnd (9 + e) - 0.5) * 0.2,
                         vz = (rnd (10 + e) - 0.5) * 0.2\<rparr>,
          mass = 0.5 + rnd (11 + e) * 1.5,
          phase = rnd (12 + e) * pi * 2\<rparr>)"

definition usePhysicsOrnaments :: "(nat \<Rightarrow> real) \<Rightarrow> nat \<Rightarrow> OrnamentType \<Rightarrow> Ornament list" where
  "usePhysicsOrnaments rand count ty =
     map (\<lambda>i. genOrnament ty (\<lambda>j. rand (i * callsPerOrnament ty + j))) [0 ..< count]"

text \<open>The batches as \<open>Ornaments\<close> creates them: their counts and types.\<close>

fun batchCount :: "Batch \<Rightarrow> nat" where
  "batchCount Balls = 120"
| "batchCount Boxes = 40"
| "batchCount Diamonds = 50"
| "batchCount Rings = 60"
| "batchCount Icicles = 60"

fun batchType :: "Batch \<Rightarrow> OrnamentType" where
  "batchType Balls = outer"
| "batchType Boxes = scatter"
| "batchType Diamonds = outer"
| "batchType Rings = outer"
| "batchType Icicles = inner"

text \<open>The bounds the generated positions are measured against.\<close>

definition insideSphere :: "Vector3 \<Rightarrow> real \<Rightarrow> Vector3 \<Rightarrow> bool" where
  "insideSphere c radius v =
     ((vx v - vx c)\<^sup>2 + (vy v - vy c)\<^sup>2 + (vz v - vz c)\<^sup>2 \<le> radius\<^sup>2)"

definition coneRadius :: "real \<Rightarrow> real" where
  "coneRadius y = (1 - y / treeHeight) * treeRadius"

definition onCone :: "Vector3 \<Rightarrow> bool" where
  "onCone v = (0 \<le> vy v \<and> vy v \<le> treeHeight \<and> (vx v)\<^sup>2 + (vz v)\<^sup>2 = (coneRadius (vy v))\<^sup>2)"

section \<open>The progress scalar of the foliage cloud\<close>

lemma lerp_update: "lerp x y t = x + (y - x) * t"
  by (simp add: lerp_def algebra_simps)

lemma useFrame_Some:
  "TreeParticles_useFrame f e d (Some m) =
     Some \<lparr>uTime = e, uProgress = uProgress m + ((if f then 1 else 0) - uProgress m) * (d * 1.5)\<rparr>"
  by (simp add: TreeParticles_useFrame_def lerp_update Let_def)

lemma step_formed:
  assumes "0 \<le> p" "p \<le> 1" "0 \<le> t" "t \<le> (1::real)"
  shows "p \<le> p + (1 - p) * t" and "p + (1 - p) * t \<le> 1"
proof -
  have "0 \<le> (1 - p) * t" using assms by simp
  then show "p \<le> p + (1 - p) * t" by simp
  have "(1 - p) * t \<le> (1 - p) * 1"
    using assms by (intro mult_left_mono) simp_all
  then show "p + (1 - p) * t \<le> 1" by simp
qed

lemma step_chaos:
  assumes "0 \<le> p" "p \<le> 1" "0 \<le> t" "t \<le> (1::real)"
  shows "p + (0 - p) * t \<le> p" and "0 \<le> p + (0 - p) * t"
proof -
  have "0 \<le> p * t" using assms by simp
  then show "p + (0 - p) * t \<le> p" by simp
  have "p * t \<le> p * 1"
    using assms by (intro mult_left_mono) simp_all
  then show "0 \<le> p + (0 - p) * t" by simp
qed

lemma progress_step_range:
  assumes "0 \<le> p" "p \<le> 1" "0 \<le> t" "t \<le> 1"
  shows "0 \<le> p + ((if f then 1 else 0) - p) * t
       \<and> p + ((if f then 1 else 0) - p) * t \<le> (1::real)"
proof (cases f)
  case True
  then show ?thesis using step_formed [OF assms] assms(1) by simp
next
  case False
  then show ?thesis using step_chaos [OF assms] assms(2) by simp
qed

lemma progress_step_mono:
  assumes "0 \<le> p" "p \<le> 1" "0 \<le> t" "t \<le> 1"
  shows "if f then p \<le> p + ((if f then 1 else 0) - p) * t
         else p + ((if f then 1 else 0) - p) * t \<le> (p::real)"
proof (cases f)
  case True
  then show ?thesis using step_formed [OF assms] by simp
next
  case False
  then show ?thesis using step_chaos [OF assms] by simp
qed

lemma frames_append:
  "TreeParticles_frames (xs @ ys) r = TreeParticles_frames ys (TreeParticles_frames xs r)"
  by (induction xs arbitrary: r) simp_all

lemma frames_range:
  assumes "\<forall>f \<in> set fs. 0 \<le> frame_delta f \<and> frame_delta f * 1.5 \<le> 1"
    and "0 \<le> uProgress m" "uProgress m \<le> 1"
  shows "\<exists>a. TreeParticles_frames fs (Some m) = Some a \<and> 0 \<le> uProgress a \<and> uProgress a \<le> 1"
  using assms
proof (induction fs arbitrary: m)
  case Nil
  then show ?case by simp
next
  case (Cons f fs)
  let ?m = "\<lparr>uTime = frame_elapsedTime f,
             uProgress = uProgress m + ((if frame_isFormed f then 1 else 0) - uProgress m)
                           * (frame_delta f * 1.5)\<rparr>"
  have d: "0 \<le> frame_delta f * 1.5" "frame_delta f * 1.5 \<le> 1"
    using Cons.prems(1) by simp_all
  have "0 \<le> uProgress ?m \<and> uProgress ?m \<le> 1"
    using progress_step_range [OF Cons.prems(2,3) d] by simp
  moreover have "\<forall>f \<in> set fs. 0 \<le> frame_delta f \<and> frame_delta f * 1.5 \<le> 1"
    using Cons.prems(1) by simp
  ultimately have "\<exists>a. TreeParticles_frames fs (Some ?m) = Some a
      \<and> 0 \<le> uProgress a \<and> uProgress a \<le> 1"
    using Cons.IH [of ?m] by blast
  then show ?case by (simp add: useFrame_Some)
qed

text \<open>
  C1, as the code has it.  The callback interpolates with the factor \<open>delta * 1.5\<close> and
  does not clamp.  For a run of frames whose factors are all in [0, 1] (each delta between
  0 and 2/3), started with a mounted material whose progress is in [0, 1]: after every
  frame the progress is again in [0, 1]; a frame shown in FORMED does not decrease it and
  a frame shown in CHAOS does not increase it.
\<close>

theorem progress_bounded_monotone:
  assumes "0 \<le> uProgress m" and "uProgress m \<le> 1"
    and "\<forall>f \<in> set fs. 0 \<le> frame_delta f \<and> frame_delta f * 1.5 \<le> 1"
    and "i < length fs"
  shows "\<exists>a b. TreeParticles_frames (take i fs) (Some m) = Some a
           \<and> TreeParticles_frames (take (Suc i) fs) (Some m) = Some b
           \<and> 0 \<le> uProgress b \<and> uProgress b \<le> 1
           \<and> (if frame_isFormed (fs ! i) then uProgress a \<le> uProgress b
               else uProgress b \<le> uProgress a)"
proof -
  have "\<forall>f \<in> set (take i fs). 0 \<le> frame_delta f \<and> frame_delta f * 1.5 \<le> 1"
    using assms(3) by (meson in_set_takeD)
  then obtain a where a: "TreeParticles_frames (take i fs) (Some m) = Some a"
      "0 \<le> uProgress a" "uProgress a \<le> 1"
    using frames_range [OF _ assms(1,2)] by blast
  let ?f = "fs ! i"
  let ?b = "\<lparr>uTime = frame_elapsedTime ?f,
             uProgress = uProgress a + ((if frame_isFormed ?f then 1 else 0) - uProgress a)
                           * (frame_delta ?f * 1.5)\<rparr>"
  have "?f \<in> set fs" using assms(4) by simp
  then have d: "0 \<le> frame_delta ?f * 1.5" "frame_delta ?f * 1.5 \<le> 1"
    using assms(3) by auto
  have "take (Suc i) fs = take i fs @ [?f]"
    using assms(4) by (simp add: take_Suc_conv_app_nth)
  then have b: "TreeParticles_frames (take (Suc i) fs) (Some m) = Some ?b"
    by (simp add: frames_append a(1) useFrame_Some)
  have "0 \<le> uProgress ?b \<and> uProgress ?b \<le> 1"
    using progress_step_range [OF a(2,3) d] by simp
  moreover have "if frame_isFormed ?f then uProgress a \<le> uProgress ?b
                 else uProgress ?b \<le> uProgress a"
    using progress_step_mono [OF a(2,3) d, of "frame_isFormed ?f"]
    by (cases "frame_isFormed ?f") simp_all
  ultimately show ?thesis using a(1) b by blast
qed

text \<open>Two frames of half a second: FORMED takes 0 to 3/4, CHAOS takes it back to 3/16.\<close>

theorem progress_bounded_monotone_witness:
  "TreeParticles_frames
      (take 1 [\<lparr>frame_isFormed = True, frame_elapsedTime = 1, frame_delta = 1/2\<rparr>,
               \<lparr>frame_isFormed = False, frame_elapsedTime = 2, frame_delta = 1/2\<rparr>])
      (Some \<lparr>uTime = 0, uProgress = 0\<rparr>) = Some \<lparr>uTime = 1, uProgress = 3/4\<rparr>
   \<and> TreeParticles_frames
      (take (Suc 1) [\<lparr>frame_isFormed = True, frame_elapsedTime = 1, frame_delta = 1/2\<rparr>,
               \<lparr>frame_isFormed = False, frame_elapsedTime = 2, frame_delta = 1/2\<rparr>])
      (Some \<lparr>uTime = 0, uProgress = 0\<rparr>) = Some \<lparr>uTime = 2, uProgress = 3/16\<rparr>"
  using progress_bounded_monotone [of "\<lparr>uTime = 0, uProgress = 0\<rparr>"
      "[\<lparr>frame_isFormed = True, frame_elapsedTime = 1, frame_delta = 1/2\<rparr>,
        \<lparr>frame_isFormed = False, frame_elapsedTime = 2, frame_delta = 1/2\<rparr>]" 1]
  by (simp add: TreeParticles_useFrame_def lerp_def)

text \<open>
  C1 as stated fails for a long frame.  From progress 0 in FORMED, one frame with
  delta = 1 gives 3/2, outside [0, 1]; a second such frame, still in FORMED, brings the
  progress down from 3/2 to 3/4.
\<close>

theorem progress_overshoot:
  "TreeParticles_frames [\<lparr>frame_isFormed = True, frame_elapsedTime = 1, frame_delta = 1\<rparr>]
      (Some \<lparr>uTime = 0, uProgress = 0\<rparr>) = Some \<lparr>uTime = 1, uProgress = 3/2\<rparr>
   \<and> \<not> (3/2 \<le> (1::real))
   \<and> TreeParticles_frames [\<lparr>frame_isFormed = True, frame_elapsedTime = 1, frame_delta = 1\<rparr>,
        \<lparr>frame_isFormed = True, frame_elapsedTime = 2, frame_delta = 1\<rparr>]
      (Some \<lparr>uTime = 0, uProgress = 0\<rparr>) = Some \<lparr>uTime = 2, uProgress = 3/4\<rparr>
   \<and> \<not> (3/2 \<le> (3/4::real))"
  by (simp add: TreeParticles_useFrame_def lerp_def)

section \<open>The easing function\<close>

lemma ease_poly: "x \<le> 1 \<Longrightarrow> easeOutCubic x = 1 - (1 - x) ^ 3"
  unfolding easeOutCubic_def glsl_pow_def
  by (cases "x = 1") (simp_all add: powr_numeral)

lemma cube_strict: "0 \<le> a \<Longrightarrow> a < (b::real) \<Longrightarrow> a ^ 3 < b ^ 3"
  by (rule power_strict_mono) simp_all

text \<open>
  C2: easeOutCubic is 0 at 0 and 1 at 1, and it is strictly increasing on [0, 1]: for
  0 <= x < y <= 1 the value at x is below the value at y.
\<close>

theorem easeOutCubic_props:
  "easeOutCubic 0 = 0 \<and> easeOutCubic 1 = 1 \<and>
   (0 \<le> x \<and> x < y \<and> y \<le> 1 \<longrightarrow> easeOutCubic x < easeOutCubic y)"
proof (intro conjI impI)
  show "easeOutCubic 0 = 0" by (simp add: ease_poly)
  show "easeOutCubic 1 = 1" by (simp add: ease_poly)
next
  assume h: "0 \<le> x \<and> x < y \<and> y \<le> 1"
  then have "(1 - y) ^ 3 < (1 - x) ^ 3"
    by (intro cube_strict) simp_all
  then show "easeOutCubic x < easeOutCubic y"
    using h by (simp add: ease_poly)
qed

theorem easeOutCubic_props_witness:
  "easeOutCubic (1/4) < easeOutCubic (1/2) \<and> easeOutCubic 0 = 0 \<and> easeOutCubic 1 = 1"
  using easeOutCubic_props [of "1/4" "1/2"] by simp

section \<open>Ornament physics\<close>

lemma damping_lt_1: "arg_damping (physicsArgs b) < 1"
  by (cases b) simp_all

lemma useFrame_item:
  assumes "batch_mesh batch = Some mesh" and "i < length (batch_items batch)"
  shows "batch_items (Ornaments_useFrame isFormed elapsedTime delta b batch) ! i
     = fst (updateItem isFormed (min delta 0.1) elapsedTime
             (arg_scaleBase (physicsArgs b)) (arg_stiffness (physicsArgs b))
             (arg_damping (physicsArgs b)) (arg_noiseStrength (physicsArgs b))
             (arg_orientToUp (physicsArgs b)) i (batch_items batch ! i))"
  using assms by (simp add: Ornaments_useFrame_def Let_def updatePhysics_def)

lemma updateItem_velocity:
  "velocity (fst (updateItem isFormed dt time sb k d ns up i item)) =
     (let pull = multiplyScalar (v_sub (if isFormed then targetPos item else chaosPos item)
                   (currentPos item)) (k / mass item);
          noise = \<lparr>vx = sin (time * 0.5 + phase item) * ns,
                   vy = cos (time * 0.3 + phase item * 2) * ns,
                   vz = sin (time * 0.7 + phase item * 0.5) * ns\<rparr>
      in if isFormed then multiplyScalar (v_add (velocity item) pull) d
         else multiplyScalar (v_add (v_add (velocity item) pull) noise) d)"
  by (simp add: updateItem_def dest_def Let_def)

lemma updateItem_currentPos:
  "currentPos (fst (updateItem isFormed dt time sb k d ns up i item)) =
     v_add (currentPos item)
       (multiplyScalar (velocity (fst (updateItem isFormed dt time sb k d ns up i item)))
          (dt * 60))"
  by (simp add: updateItem_def Let_def)

text \<open>
  C3: for every ornament of a mounted batch, one frame changes velocity and position as
  follows.  The pull (destination - currentPos) * (stiffness / mass) is added to the
  velocity; in CHAOS, and only then, the sine/cosine noise vector keyed by the elapsed
  time and the phase of the ornament is added; the sum is multiplied by the damping
  constant of the batch, which is below 1; then the position advances by the new velocity
  times dt * 60, where dt is the frame's delta clamped to at most 0.1.
\<close>

theorem ornament_physics_steps:
  assumes "batch_mesh batch = Some mesh" and "i < length (batch_items batch)"
  shows
   "let item = batch_items batch ! i;
        item' = batch_items (Ornaments_useFrame isFormed elapsedTime delta b batch) ! i;
        stiffness = arg_stiffness (physicsArgs b);
        damping = arg_damping (physicsArgs b);
        noiseStrength = arg_noiseStrength (physicsArgs b);
        dt = min delta 0.1;
        pull = multiplyScalar (v_sub (if isFormed then targetPos item else chaosPos item)
                 (currentPos item)) (stiffness / mass item);
        noise = \<lparr>vx = sin (elapsedTime * 0.5 + phase item) * noiseStrength,
                 vy = cos (elapsedTime * 0.3 + phase item * 2) * noiseStrength,
                 vz = sin (elapsedTime * 0.7 + phase item * 0.5) * noiseStrength\<rparr>
    in velocity item' =
         (if isFormed then multiplyScalar (v_add (velocity item) pull) damping
          else multiplyScalar (v_add (v_add (velocity item) pull) noise) damping)
       \<and> currentPos item' = v_add (currentPos item) (multiplyScalar (velocity item') (dt * 60))
       \<and> damping < 1 \<and> dt \<le> 0.1"
  unfolding Let_def useFrame_item [OF assms]
  using updateItem_velocity [of isFormed "min delta 0.1" elapsedTime
      "arg_scaleBase (physicsArgs b)" "arg_stiffness (physicsArgs b)"
      "arg_damping (physicsArgs b)" "arg_noiseStrength (physicsArgs b)"
      "arg_orientToUp (physicsArgs b)" i "batch_items batch ! i"]
    updateItem_currentPos [of isFormed "min delta 0.1" elapsedTime
      "arg_scaleBase (physicsArgs b)" "arg_stiffness (physicsArgs b)"
      "arg_damping (physicsArgs b)" "arg_noiseStrength (physicsArgs b)"
      "arg_orientToUp (physicsArgs b)" i "batch_items batch ! i"]
    damping_lt_1 [of b]
  by (simp add: Let_def)

text \<open>
  A ball of mass 1 at rest at the origin, target (10, 0, 0), FORMED, a frame of one second:
  the pull is 0.5, the damped velocity 0.46, and the step 0.46 * (0.1 * 60) = 2.76.
\<close>

theorem ornament_physics_steps_witness:
  "velocity (batch_items (Ornaments_useFrame True 0 1 Balls
       \<lparr>batch_items =
          [\<lparr>chaosPos = \<lparr>vx = 0, vy = 20, vz = 0\<rparr>, targetPos = \<lparr>vx = 10, vy = 0, vz = 0\<rparr>,
            currentPos = \<lparr>vx = 0, vy = 0, vz = 0\<rparr>, velocity = \<lparr>vx = 0, vy = 0, vz = 0\<rparr>,
            rotation = \<lparr>vx = 0, vy = 0, vz = 0\<rparr>, rotVelocity = \<lparr>vx = 0, vy = 0, vz = 0\<rparr>,
            mass = 1, phase = 0\<rparr>],
        batch_mesh = Some []\<rparr>) ! 0)
     = \<lparr>vx = 0.46, vy = 0, vz = 0\<rparr>
   \<and> currentPos (batch_items (Ornaments_useFrame True 0 1 Balls
       \<lparr>batch_items =
          [\<lparr>chaosPos = \<lparr>vx = 0, vy = 20, vz = 0\<rparr>, targetPos = \<lparr>vx = 10, vy = 0, vz = 0\<rparr>,
            currentPos = \<lparr>vx = 0, vy = 0, vz = 0\<rparr>, velocity = \<lparr>vx = 0, vy = 0, vz = 0\<rparr>,
            rotation = \<lparr>vx = 0, vy = 0, vz = 0\<rparr>, rotVelocity = \<lparr>vx = 0, vy = 0, vz = 0\<rparr>,
            mass = 1, phase = 0\<rparr>],
        batch_mesh = Some []\<rparr>) ! 0)
     = \<lparr>vx = 2.76, vy = 0, vz = 0\<rparr>"
  using ornament_physics_steps [of
      "\<lparr>batch_items =
          [\<lparr>chaosPos = \<lparr>vx = 0, vy = 20, vz = 0\<rparr>, targetPos = \<lparr>vx = 10, vy = 0, vz = 0\<rparr>,
            currentPos = \<lparr>vx = 0, vy = 0, vz = 0\<rparr>, velocity = \<lparr>vx = 0, vy = 0, vz = 0\<rparr>,
            rotation = \<lparr>vx = 0, vy = 0, vz = 0\<rparr>, rotVelocity = \<lparr>vx = 0, vy = 0, vz = 0\<rparr>,
            mass = 1, phase = 0\<rparr>],
        batch_mesh = Some []\<rparr>" "[]" 0 True 0 1 Balls]
  by (simp add: Let_def v_add_def v_sub_def multiplyScalar_def)

section \<open>Mode toggle\<close>

text \<open>
  C4: toggling the mode twice restores the state, hence the mode; the destination that
  the physics update selects for an entity (target position if formed, chaos position
  otherwise) is then the one selected before the two toggles.
\<close>

theorem toggle_twice:
  "toggleState (toggleState st) = st \<and>
   dest (Experience_isFormed (treeState (toggleState (toggleState st)))) item
     = dest (Experience_isFormed (treeState st)) item"
  by (cases "treeState st") (simp_all add: toggleState_def)

section \<open>Slideshow offset\<close>

lemma js_rem_nonneg: "0 \<le> a \<Longrightarrow> 0 < b \<Longrightarrow> js_rem a b = a mod b"
  by (cases "a = 0") (simp_all add: js_rem_def)

text \<open>
  C5: for a photo list of length n >= 1 and an offset in [0, n), handleNextPhoto followed
  by handlePrevPhoto gives the offset back.
\<close>

theorem next_then_prev_photo:
  assumes "1 \<le> length (userPhotos st)"
    and "0 \<le> photoOffset st"
    and "photoOffset st < int (length (userPhotos st))"
  shows "photoOffset (handlePrevPhoto (handleNextPhoto st)) = photoOffset st"
proof -
  define n where "n = int (length (userPhotos st))"
  define k where "k = photoOffset st"
  have n: "0 < n" and k: "0 \<le> k" "k < n"
    using assms by (auto simp: n_def k_def)
  have next_eq: "js_rem (k + 1) n = (k + 1) mod n"
    using n k by (simp add: js_rem_nonneg)
  have nonneg: "0 \<le> (k + 1) mod n - 1 + n"
    using n pos_mod_sign [of n "k + 1"] by linarith
  have "js_rem ((k + 1) mod n - 1 + n) n = ((k + 1) mod n - 1 + n) mod n"
    using nonneg n by (rule js_rem_nonneg)
  also have "\<dots> = ((k + 1) mod n - 1) mod n"
    by simp
  also have "\<dots> = (k + 1 - 1) mod n"
    by (rule mod_diff_left_eq)
  also have "\<dots> = k"
    using n k by simp
  finally have "js_rem (js_rem (k + 1) n - 1 + n) n = k"
    by (simp add: next_eq)
  moreover have "length (userPhotos st) \<noteq> 0"
    using assms(1) by auto
  ultimately show ?thesis
    by (simp add: handleNextPhoto_def handlePrevPhoto_def n_def k_def)
qed

text \<open>With the six default photos, the last offset 5 wraps to 0 and comes back to 5.\<close>

theorem next_then_prev_photo_witness:
  "photoOffset (handlePrevPhoto (handleNextPhoto (App_init\<lparr>photoOffset := 5\<rparr>))) = 5
   \<and> photoOffset (handleNextPhoto (App_init\<lparr>photoOffset := 5\<rparr>)) = 0"
  using next_then_prev_photo [of "App_init\<lparr>photoOffset := 5\<rparr>"]
  by (simp add: App_init_def DEFAULT_PHOTOS_def handleNextPhoto_def js_rem_def)

section \<open>The featured photo index\<close>

lemma floor_random_range:
  assumes "0 \<le> random" "random < 1"
  shows "0 \<le> \<lfloor>random * real totalCount\<rfloor>" "\<lfloor>random * real totalCount\<rfloor> < int totalCount"
proof -
  show "0 \<le> \<lfloor>random * real totalCount\<rfloor>"
    using assms by (simp add: totalCount_def)
  have "random * real totalCount < real totalCount"
    using assms by (simp add: totalCount_def)
  then show "\<lfloor>random * real totalCount\<rfloor> < int totalCount"
    by (simp add: floor_less_iff)
qed

lemma Photos_nonempty:
  "props_userPhotos props = Some photos \<Longrightarrow> photos \<noteq> [] \<Longrightarrow>
   \<exists>items. Photos props hooks = Inr (Some items)"
  by (simp add: Photos_def js_length_def)

text \<open>
  C6: when Photos is rendered in CHAOS and its effect last ran in FORMED (or has not run
  yet), the effect sets the featured index to floor (random * 12), whatever the index was
  before; for random in [0, 1) this is an integer in [0, totalCount), and totalCount is 12.
  The photo list is not empty here, as it never is in App; with an empty list Photos
  returns before its hooks.
\<close>

theorem featured_index_rerolled:
  assumes "props_userPhotos props = Some photos" and "photos \<noteq> []"
    and "\<not> props_isFormed props" and "effect_deps hooks \<noteq> Some False"
    and "0 \<le> random" and "random < 1"
  shows "featuredIndex (Photos_effect props random hooks) = \<lfloor>random * 12\<rfloor>
       \<and> 0 \<le> featuredIndex (Photos_effect props random hooks)
       \<and> featuredIndex (Photos_effect props random hooks) < int totalCount
       \<and> totalCount = 12
       \<and> effect_deps (Photos_effect props random hooks) = Some False"
proof -
  obtain items where "Photos props hooks = Inr (Some items)"
    using Photos_nonempty [OF assms(1,2)] by blast
  then have eff: "Photos_effect props random hooks =
      hooks\<lparr>featuredIndex := \<lfloor>random * real totalCount\<rfloor>, effect_deps := Some False\<rparr>"
    using assms(3,4) by (simp add: Photos_effect_def)
  show ?thesis
    using floor_random_range [OF assms(5,6)] by (simp add: eff) (simp add: totalCount_def)
qed

text \<open>Index 3 was featured; the switch to CHAOS with random = 3/4 features index 9.\<close>

theorem featured_index_rerolled_witness:
  "featuredIndex (Photos_effect \<lparr>props_isFormed = False, props_count = 12,
      props_userPhotos = Some DEFAULT_PHOTOS, props_photoOffset = 0\<rparr> (3/4)
      \<lparr>featuredIndex = 3, effect_deps = Some True, photoData = []\<rparr>) = 9"
  using featured_index_rerolled [where props = "\<lparr>props_isFormed = False, props_count = 12,
      props_userPhotos = Some DEFAULT_PHOTOS, props_photoOffset = 0\<rparr>"
      and photos = DEFAULT_PHOTOS
      and hooks = "\<lparr>featuredIndex = 3, effect_deps = Some True, photoData = []\<rparr>"
      and random = "3/4"]
  by (simp add: DEFAULT_PHOTOS_def totalCount_def)

section \<open>Generated positions\<close>

lemma planar_norm: "(l * cos a)\<^sup>2 + (l * sin a)\<^sup>2 = (l::real)\<^sup>2"
proof -
  have "(l * cos a)\<^sup>2 + (l * sin a)\<^sup>2 = l\<^sup>2 * ((cos a)\<^sup>2 + (sin a)\<^sup>2)"
    by (simp only: power_mult_distrib distrib_left)
  also have "\<dots> = l\<^sup>2"
    by simp
  finally show ?thesis .
qed

lemma spherical_norm:
  "(r * sin p * cos t)\<^sup>2 + (r * sin p * sin t)\<^sup>2 + (r * cos p)\<^sup>2 = (r::real)\<^sup>2"
proof -
  have "(r * sin p * cos t)\<^sup>2 + (r * sin p * sin t)\<^sup>2 = (r * sin p)\<^sup>2"
    by (rule planar_norm)
  then have "(r * sin p * cos t)\<^sup>2 + (r * sin p * sin t)\<^sup>2 + (r * cos p)\<^sup>2
        = (r * sin p)\<^sup>2 + (r * cos p)\<^sup>2"
    by simp
  also have "\<dots> = (r * cos p)\<^sup>2 + (r * sin p)\<^sup>2"
    by simp
  also have "\<dots> = r\<^sup>2"
    by (rule planar_norm)
  finally show ?thesis .
qed

lemma cbrt_unit: "0 \<le> u \<Longrightarrow> u < 1 \<Longrightarrow> 0 \<le> root 3 u \<and> root 3 u < 1"
  by (simp add: real_root_lt_1_iff)

lemma sq_le: "0 \<le> a \<Longrightarrow> a \<le> b \<Longrightarrow> a\<^sup>2 \<le> (b::real)\<^sup>2"
  by (rule power_mono)

lemma particleChaos_inside:
  assumes "0 \<le> rand (6 * i)" "rand (6 * i) < 1"
  shows "insideSphere \<lparr>vx = 0, vy = 7, vz = 0\<rparr> 15 (particleChaos rand i)"
proof -
  have "0 \<le> root 3 (rand (6 * i)) * 15" "root 3 (rand (6 * i)) * 15 \<le> 15"
    using cbrt_unit [OF assms] by simp_all
  then have "(root 3 (rand (6 * i)) * 15)\<^sup>2 \<le> 15\<^sup>2"
    by (rule sq_le)
  then show ?thesis
    by (simp add: insideSphere_def particleChaos_def Let_def spherical_norm)
qed

lemma particleTarget_onCone:
  assumes "0 \<le> rand (6 * i + 3)" "rand (6 * i + 3) < 1"
  shows "onCone (particleTarget rand i)"
  using assms
  by (simp add: onCone_def particleTarget_def Let_def coneRadius_def treeHeight_def
      treeRadius_def planar_norm)

lemma length_set3: "length (set3 arr a b c off) = length arr"
  by (simp add: set3_def)

lemma set3_at:
  assumes "off + 2 < length arr"
  shows "set3 arr a b c off ! off = a" "set3 arr a b c off ! (off + 1) = b"
    "set3 arr a b c off ! (off + 2) = c"
  using assms by (simp_all add: set3_def)

lemma set3_below: "j < off \<Longrightarrow> set3 arr a b c off ! j = arr ! j"
  by (simp add: set3_def)

lemma positions_genParticle:
  "positions (genParticle rand n g) =
     set3 (positions g) (vx (particleChaos rand n)) (vy (particleChaos rand n))
       (vz (particleChaos rand n)) (n * 3)"
  by (simp add: genParticle_def Let_def)

lemma targets_genParticle:
  "targets (genParticle rand n g) =
     set3 (targets g) (vx (particleTarget rand n)) (vy (particleTarget rand n))
       (vz (particleTarget rand n)) (n * 3)"
  by (simp add: genParticle_def Let_def)

lemma length_genParticles:
  "length (positions (genParticles rand n g)) = length (positions g)
   \<and> length (targets (genParticles rand n g)) = length (targets g)"
  by (induction n) (simp_all add: positions_genParticle targets_genParticle length_set3)

text \<open>A later iteration of the loop writes behind the entries of an earlier one.\<close>

lemma chaosOf_genParticles:
  assumes "n * 3 \<le> length (positions g)" and "i < n"
  shows "chaosOf (genParticles rand n g) i = particleChaos rand i"
  using assms
proof (induction n)
  case 0
  then show ?case by simp
next
  case (Suc n)
  let ?g = "genParticles rand n g"
  have len: "n * 3 + 2 < length (positions ?g)"
    using Suc.prems(1) by (simp add: length_genParticles)
  show ?case
  proof (cases "i = n")
    case True
    then show ?thesis
      using set3_at [OF len] by (simp add: chaosOf_def positions_genParticle)
  next
    case False
    then have i: "i < n" using Suc.prems(2) by simp
    then have "i * 3 < n * 3" "i * 3 + 1 < n * 3" "i * 3 + 2 < n * 3" by simp_all
    then have "chaosOf (genParticles rand (Suc n) g) i = chaosOf ?g i"
      by (simp add: chaosOf_def positions_genParticle set3_below)
    then show ?thesis
      using Suc.IH i Suc.prems(1) by simp
  qed
qed

lemma targetOf_genParticles:
  assumes "n * 3 \<le> length (targets g)" and "i < n"
  shows "targetOf (genParticles rand n g) i = particleTarget rand i"
  using assms
proof (induction n)
  case 0
  then show ?case by simp
next
  case (Suc n)
  let ?g = "genParticles rand n g"
  have len: "n * 3 + 2 < length (targets ?g)"
    using Suc.prems(1) by (simp add: length_genParticles)
  show ?case
  proof (cases "i = n")
    case True
    then show ?thesis
      using set3_at [OF len] by (simp add: targetOf_def targets_genParticle)
  next
    case False
    then have i: "i < n" using Suc.prems(2) by simp
    then have "i * 3 < n * 3" "i * 3 + 1 < n * 3" "i * 3 + 2 < n * 3" by simp_all
    then have "targetOf (genParticles rand (Suc n) g) i = targetOf ?g i"
      by (simp add: targetOf_def targets_genParticle set3_below)
    then show ?thesis
      using Suc.IH i Suc.prems(1) by simp
  qed
qed

lemma geometry_particle:
  assumes "i < count"
  shows "chaosOf (TreeParticles_geometry rand count) i = particleChaos rand i"
    and "targetOf (TreeParticles_geometry rand count) i = particleTarget rand i"
  using assms
  by (simp_all add: TreeParticles_geometry_def chaosOf_genParticles targetOf_genParticles)

lemma genOrnament_chaos:
  assumes "0 \<le> rnd 0" "rnd 0 < 1"
  shows "insideSphere \<lparr>vx = 0, vy = 0, vz = 0\<rparr> 23 (chaosPos (genOrnament ty rnd))"
proof -
  have "0 \<le> root 3 (rnd 0) * 18 + 5" "root 3 (rnd 0) * 18 + 5 \<le> 23"
    using cbrt_unit [OF assms] by simp_all
  then have "(root 3 (rnd 0) * 18 + 5)\<^sup>2 \<le> 23\<^sup>2"
    by (rule sq_le)
  then show ?thesis
    by (simp add: insideSphere_def genOrnament_def Let_def spherical_norm)
qed

lemma genOrnament_height:
  assumes "0 \<le> rnd 3" "rnd 3 < 1"
  shows "0 \<le> vy (targetPos (genOrnament ty rnd))"
    and "vy (targetPos (genOrnament ty rnd)) \<le> treeHeight"
  using assms by (simp_all add: genOrnament_def Let_def treeHeight_def)

lemma genOrnament_target:
  "targetPos (genOrnament ty rnd) =
     (let y = rnd 3 * treeHeight * 0.9;
          s = (case ty of inner \<Rightarrow> 0.5 + rnd 4 * 0.3 | outer \<Rightarrow> 0.9 + rnd 4 * 0.2
                 | scatter \<Rightarrow> 1);
          angle = rnd (4 + (if ty = scatter then 0 else 1)) * pi * 2
      in \<lparr>vx = coneRadius y * s * cos angle, vy = y, vz = coneRadius y * s * sin angle\<rparr>)"
  by (cases ty) (simp_all add: genOrnament_def Let_def coneRadius_def)

lemma genOrnament_radius:
  "(vx (targetPos (genOrnament ty rnd)))\<^sup>2 + (vz (targetPos (genOrnament ty rnd)))\<^sup>2 =
     ((case ty of inner \<Rightarrow> 0.5 + rnd 4 * 0.3 | outer \<Rightarrow> 0.9 + rnd 4 * 0.2 | scatter \<Rightarrow> 1)
        * coneRadius (vy (targetPos (genOrnament ty rnd))))\<^sup>2"
  unfolding genOrnament_target Let_def
  by (simp only: Vector3.simps planar_norm mult.commute [of "coneRadius _"])

lemma ornaments_nth:
  "i < count \<Longrightarrow>
   usePhysicsOrnaments rand count ty ! i
     = genOrnament ty (\<lambda>j. rand (i * callsPerOrnament ty + j))"
  by (simp add: usePhysicsOrnaments_def)

text \<open>
  C7, as the code has it.  Let every result of Math.random() be in [0, 1) and i be below
  the count.  Foliage particle i has its chaos position inside the sphere of radius 15
  around (0, 7, 0) and its target position on the cone: height y in [0, treeHeight] and
  distance (1 - y / treeHeight) * treeRadius from the axis.  Ornament i has its chaos
  position inside the sphere of radius 23 around the origin and its target height in
  [0, treeHeight]; its distance from the axis is the cone radius at its height times a
  factor s, where s = 1 for the type scatter, s in [0.5, 0.8) for inner and s in
  [0.9, 1.1) for outer.
\<close>

theorem generated_positions_bounded:
  assumes "\<forall>k. 0 \<le> rand k \<and> rand k < 1" and "i < count"
  shows "insideSphere \<lparr>vx = 0, vy = 7, vz = 0\<rparr> 15 (chaosOf (TreeParticles_geometry rand count) i)
       \<and> onCone (targetOf (TreeParticles_geometry rand count) i)
       \<and> (let item = usePhysicsOrnaments rand count ty ! i; t = targetPos item in
            insideSphere \<lparr>vx = 0, vy = 0, vz = 0\<rparr> 23 (chaosPos item)
            \<and> 0 \<le> vy t \<and> vy t \<le> treeHeight
            \<and> (\<exists>s. (vx t)\<^sup>2 + (vz t)\<^sup>2 = (s * coneRadius (vy t))\<^sup>2
                 \<and> (case ty of inner \<Rightarrow> 0.5 \<le> s \<and> s < 0.8
                              | outer \<Rightarrow> 0.9 \<le> s \<and> s < 1.1
                              | scatter \<Rightarrow> s = 1)))"
proof -
  let ?rnd = "\<lambda>j. rand (i * callsPerOrnament ty + j)"
  let ?s = "case ty of inner \<Rightarrow> 0.5 + ?rnd 4 * 0.3 | outer \<Rightarrow> 0.9 + ?rnd 4 * 0.2 | scatter \<Rightarrow> 1"
  have r: "\<And>k. 0 \<le> rand k" "\<And>k. rand k < 1"
    using assms(1) by simp_all
  have foliage:
    "insideSphere \<lparr>vx = 0, vy = 7, vz = 0\<rparr> 15 (chaosOf (TreeParticles_geometry rand count) i)"
    "onCone (targetOf (TreeParticles_geometry rand count) i)"
    using particleChaos_inside [of rand i] particleTarget_onCone [of rand i] r
    by (simp_all add: geometry_particle [OF assms(2)])
  have s: "case ty of inner \<Rightarrow> 0.5 \<le> ?s \<and> ?s < 0.8 | outer \<Rightarrow> 0.9 \<le> ?s \<and> ?s < 1.1
             | scatter \<Rightarrow> ?s = 1"
    using r(1) [of "i * callsPerOrnament ty + 4"] r(2) [of "i * callsPerOrnament ty + 4"]
    by (cases ty) simp_all
  have "\<exists>s. (vx (targetPos (genOrnament ty ?rnd)))\<^sup>2 + (vz (targetPos (genOrnament ty ?rnd)))\<^sup>2
             = (s * coneRadius (vy (targetPos (genOrnament ty ?rnd))))\<^sup>2
           \<and> (case ty of inner \<Rightarrow> 0.5 \<le> s \<and> s < 0.8 | outer \<Rightarrow> 0.9 \<le> s \<and> s < 1.1
                 | scatter \<Rightarrow> s = 1)"
    using genOrnament_radius [of ty ?rnd] s by blast
  then show ?thesis
    using foliage genOrnament_chaos [of ?rnd ty] genOrnament_height [of ?rnd ty] r
    by (simp add: ornaments_nth [OF assms(2)] Let_def)
qed

text \<open>
  With every random value 0: the one foliage particle starts at the centre (0, 7, 0) of
  its sphere and goes to (5, 0, 0) at the foot of the cone, and so does a scatter ornament.
\<close>

theorem generated_positions_bounded_witness:
  "chaosOf (TreeParticles_geometry (\<lambda>k. 0) 1) 0 = \<lparr>vx = 0, vy = 7, vz = 0\<rparr>
   \<and> targetOf (TreeParticles_geometry (\<lambda>k. 0) 1) 0 = \<lparr>vx = 5, vy = 0, vz = 0\<rparr>
   \<and> insideSphere \<lparr>vx = 0, vy = 7, vz = 0\<rparr> 15 (chaosOf (TreeParticles_geometry (\<lambda>k. 0) 1) 0)
   \<and> onCone (targetOf (TreeParticles_geometry (\<lambda>k. 0) 1) 0)
   \<and> targetPos (usePhysicsOrnaments (\<lambda>k. 0) 1 scatter ! 0) = \<lparr>vx = 5, vy = 0, vz = 0\<rparr>"
  using generated_positions_bounded [of "\<lambda>k. 0" 0 1 scatter]
  by (simp add: TreeParticles_geometry_def genParticle_def particleChaos_def
      particleTarget_def set3_def chaosOf_def targetOf_def treeHeight_def treeRadius_def
      usePhysicsOrnaments_def genOrnament_def Let_def)

text \<open>
  C7 as stated fails for the balls, which are of type outer.  With every random value 0
  the first ball has its target at height 0 and at distance 5 * 0.9 = 4.5 from the axis,
  where the cone has radius 5.
\<close>

theorem outer_ornament_off_cone:
  "targetPos (usePhysicsOrnaments (\<lambda>k. 0) (batchCount Balls) (batchType Balls) ! 0)
     = \<lparr>vx = 4.5, vy = 0, vz = 0\<rparr>
   \<and> \<not> onCone (targetPos (usePhysicsOrnaments (\<lambda>k. 0) (batchCount Balls) (batchType Balls) ! 0))"
  by (simp add: usePhysicsOrnaments_def genOrnament_def Let_def onCone_def coneRadius_def
      treeHeight_def treeRadius_def power2_eq_square)

section \<open>The featured photo in front of the camera\<close>

lemma useFrame_keeps_mesh:
  "meshRef st = Some mesh \<Longrightarrow>
   \<exists>mesh'. meshRef (PhotoItem_useFrame three data isFormed isFeatured camera elapsedTime delta st)
             = Some mesh'"
  by (simp add: PhotoItem_useFrame_def Let_def split: prod.splits)

lemma featured_frame:
  assumes "meshRef st = Some mesh"
  shows "memo_targetPos (PhotoItem_useFrame three data False True camera elapsedTime delta st) =
           v_add (v_add (cam_position camera)
                   (multiplyScalar (applyQuaternion three \<lparr>vx = 0, vy = 0, vz = - 1\<rparr>
                      (cam_quaternion camera)) 5))
             \<lparr>vx = 0, vy = 5, vz = 0\<rparr>"
    and "memo_targetQuat (PhotoItem_useFrame three data False True camera elapsedTime delta st) =
           cam_quaternion camera"
    and "meshRef (PhotoItem_useFrame three data False True camera elapsedTime delta st) =
           Some (mesh
             \<lparr>mesh_position := v_lerp (mesh_position mesh)
                 (memo_targetPos
                    (PhotoItem_useFrame three data False True camera elapsedTime delta st))
                 (delta * 2),
              mesh_quaternion := slerp three (mesh_quaternion mesh) (cam_quaternion camera)
                 (delta * 2),
              mesh_scale :=
                \<lparr>vx = lerp (vx (mesh_scale mesh)) 1.5 (delta * 2),
                 vy = lerp (vx (mesh_scale mesh)) 1.5 (delta * 2),
                 vz = lerp (vx (mesh_scale mesh)) 1.5 (delta * 2)\<rparr>\<rparr>)"
  using assms
  by (simp_all add: PhotoItem_useFrame_def Let_def v_add_def multiplyScalar_def)

lemma world_of_compensated:
  "localToWorld (v_add v \<lparr>vx = 0, vy = 5, vz = 0\<rparr>) = v"
  by (simp add: localToWorld_def Experience_groupPosition_def v_add_def)

text \<open>
  C8: in a frame in CHAOS in which a mounted photo is featured, its destination is the
  camera position plus 5 times the camera's forward direction (the vector (0, 0, -1)
  turned by the camera's orientation), with the local y raised by 5; in world space,
  under the parent group at [0, -5, 0], that is the point 5 in front of the camera.  Its
  target orientation is the camera's orientation, and the mesh moves towards this
  destination.  The destination is computed from the camera of the frame alone: it does
  not depend on the scratch objects as any earlier frame, with any other camera, left
  them.
\<close>

theorem featured_destination:
  assumes "meshRef st = Some mesh" and "\<not> isFormed" and "isFeatured"
  shows
   "let st' = PhotoItem_useFrame three data isFormed isFeatured camera elapsedTime delta st;
        st0 = PhotoItem_useFrame three data0 isFormed0 isFeatured0 camera0 elapsedTime0 delta0 st;
        st1 = PhotoItem_useFrame three data isFormed isFeatured camera elapsedTime delta st0;
        forward = applyQuaternion three \<lparr>vx = 0, vy = 0, vz = - 1\<rparr> (cam_quaternion camera)
    in memo_targetPos st' =
         v_add (v_add (cam_position camera) (multiplyScalar forward 5)) \<lparr>vx = 0, vy = 5, vz = 0\<rparr>
       \<and> localToWorld (memo_targetPos st') =
           v_add (cam_position camera) (multiplyScalar forward 5)
       \<and> memo_targetQuat st' = cam_quaternion camera
       \<and> (\<exists>mesh'. meshRef st' = Some mesh'
            \<and> mesh_position mesh' = v_lerp (mesh_position mesh) (memo_targetPos st') (delta * 2))
       \<and> memo_targetPos st1 = memo_targetPos st'
       \<and> memo_targetQuat st1 = memo_targetQuat st'"
proof -
  obtain mesh0 where m0:
    "meshRef (PhotoItem_useFrame three data0 isFormed0 isFeatured0 camera0 elapsedTime0 delta0 st)
       = Some mesh0"
    using useFrame_keeps_mesh [OF assms(1)] by blast
  have f: "isFormed = False" "isFeatured = True"
    using assms(2,3) by simp_all
  show ?thesis
    unfolding Let_def f
    by (simp add: featured_frame [OF assms(1)] featured_frame(1,2) [OF m0] world_of_compensated)
qed

text \<open>
  A camera at (0, 4, 20) whose forward direction is (0, 0, -1): the destination is
  (0, 9, 15) locally, which is (0, 4, 15) in world space.
\<close>

theorem featured_destination_witness:
  "memo_targetPos (PhotoItem_useFrame
      \<lparr>applyQuaternion = (\<lambda>v q. v), setFromEuler = (\<lambda>e. \<lparr>qx = 0, qy = 0, qz = 0, qw = 1\<rparr>),
       slerp = (\<lambda>a b t. b)\<rparr>
      \<lparr>chaos = (1, 2, 3), target = (4, 5, 6), rotationChaos = (0, 0, 0),
       rotationTarget = (0, 0, 0)\<rparr>
      False True
      \<lparr>cam_position = \<lparr>vx = 0, vy = 4, vz = 20\<rparr>,
       cam_quaternion = \<lparr>qx = 0, qy = 0, qz = 0, qw = 1\<rparr>\<rparr>
      0 (1/60)
      \<lparr>meshRef = Some \<lparr>mesh_position = \<lparr>vx = 0, vy = 0, vz = 0\<rparr>,
                       mesh_quaternion = \<lparr>qx = 0, qy = 0, qz = 0, qw = 1\<rparr>,
                       mesh_scale = \<lparr>vx = 1.2, vy = 1.2, vz = 1.2\<rparr>\<rparr>,
       memo_targetPos = \<lparr>vx = 0, vy = 0, vz = 0\<rparr>,
       memo_targetQuat = \<lparr>qx = 0, qy = 0, qz = 0, qw = 1\<rparr>,
       memo_forward = \<lparr>vx = 0, vy = 0, vz = 0\<rparr>\<rparr>)
     = \<lparr>vx = 0, vy = 9, vz = 15\<rparr>
   \<and> localToWorld \<lparr>vx = 0, vy = 9, vz = 15\<rparr> = \<lparr>vx = 0, vy = 4, vz = 15\<rparr>"
  using featured_destination [where
      st = "\<lparr>meshRef = Some \<lparr>mesh_position = \<lparr>vx = 0, vy = 0, vz = 0\<rparr>,
                       mesh_quaternion = \<lparr>qx = 0, qy = 0, qz = 0, qw = 1\<rparr>,
                       mesh_scale = \<lparr>vx = 1.2, vy = 1.2, vz = 1.2\<rparr>\<rparr>,
             memo_targetPos = \<lparr>vx = 0, vy = 0, vz = 0\<rparr>,
             memo_targetQuat = \<lparr>qx = 0, qy = 0, qz = 0, qw = 1\<rparr>,
             memo_forward = \<lparr>vx = 0, vy = 0, vz = 0\<rparr>\<rparr>"
      and mesh = "\<lparr>mesh_position = \<lparr>vx = 0, vy = 0, vz = 0\<rparr>,
                       mesh_quaternion = \<lparr>qx = 0, qy = 0, qz = 0, qw = 1\<rparr>,
                       mesh_scale = \<lparr>vx = 1.2, vy = 1.2, vz = 1.2\<rparr>\<rparr>"
      and isFormed = False and isFeatured = True
      and three = "\<lparr>applyQuaternion = (\<lambda>v q. v),
             setFromEuler = (\<lambda>e. \<lparr>qx = 0, qy = 0, qz = 0, qw = 1\<rparr>),
             slerp = (\<lambda>a b t. b)\<rparr>"
      and data = "\<lparr>chaos = (1, 2, 3), target = (4, 5, 6), rotationChaos = (0, 0, 0),
             rotationTarget = (0, 0, 0)\<rparr>"
      and camera = "\<lparr>cam_position = \<lparr>vx = 0, vy = 4, vz = 20\<rparr>,
             cam_quaternion = \<lparr>qx = 0, qy = 0, qz = 0, qw = 1\<rparr>\<rparr>"
      and elapsedTime = 0 and delta = "1/60"]
  by (simp add: Let_def v_add_def multiplyScalar_def localToWorld_def
      Experience_groupPosition_def)

section \<open>An empty photo list\<close>

text \<open>
  C9: when userPhotos is missing or empty, the render of Photos returns null and raises
  no exception, and no effect of the component runs.
\<close>

theorem photos_empty_renders_nothing:
  assumes "props_userPhotos props = None \<or> props_userPhotos props = Some []"
  shows "Photos props hooks = Inr None \<and> Photos_effect props random hooks = hooks"
  using assms by (auto simp: Photos_def Photos_effect_def js_length_def)

theorem photos_empty_renders_nothing_witness:
  "Photos \<lparr>props_isFormed = False, props_count = 12, props_userPhotos = Some [],
           props_photoOffset = 0\<rparr>
     \<lparr>featuredIndex = 0, effect_deps = None, photoData = []\<rparr> = Inr None
   \<and> Photos \<lparr>props_isFormed = True, props_count = 12, props_userPhotos = None,
           props_photoOffset = 0\<rparr>
     \<lparr>featuredIndex = 0, effect_deps = None, photoData = []\<rparr> = Inr None"
  using photos_empty_renders_nothing [where props = "\<lparr>props_isFormed = False, props_count = 12,
      props_userPhotos = Some [], props_photoOffset = 0\<rparr>" and random = 0
      and hooks = "\<lparr>featuredIndex = 0, effect_deps = None, photoData = []\<rparr>"]
    photos_empty_renders_nothing [where props = "\<lparr>props_isFormed = True, props_count = 12,
      props_userPhotos = None, props_photoOffset = 0\<rparr>" and random = 0
      and hooks = "\<lparr>featuredIndex = 0, effect_deps = None, photoData = []\<rparr>"]
  by simp

section \<open>Uploads without an image\<close>

lemma upload_nonempty:
  "userPhotos st \<noteq> [] \<Longrightarrow> userPhotos (handlePhotoUpload c files st) \<noteq> []"
  by (auto simp: handlePhotoUpload_def Let_def split: option.splits)

lemma uploads_nonempty:
  "userPhotos st \<noteq> [] \<Longrightarrow> userPhotos (uploads c evs st) \<noteq> []"
  by (induction evs arbitrary: st) (simp_all add: upload_nonempty)

text \<open>
  C10: when no file of the selection has a MIME type that starts with image/, the upload
  handler leaves userPhotos and photoOffset as they were; a null selection changes
  nothing at all.  From the initial state of App, whose photo list is the non-empty
  default list, no run of uploads makes userPhotos empty.
\<close>

theorem upload_without_images:
  assumes "\<forall>file \<in> set fileArray. \<not> startsWith (file_type file) ''image/''"
  shows "userPhotos (handlePhotoUpload c (Some fileArray) st) = userPhotos st
       \<and> photoOffset (handlePhotoUpload c (Some fileArray) st) = photoOffset st
       \<and> handlePhotoUpload c None st = st
       \<and> userPhotos (uploads c evs App_init) \<noteq> []"
proof -
  have "filter (\<lambda>file. file_type file \<noteq> [] \<and> startsWith (file_type file) ''image/'') fileArray
          = []"
    using assms by (simp add: filter_empty_conv)
  then have "userPhotos (handlePhotoUpload c (Some fileArray) st) = userPhotos st
       \<and> photoOffset (handlePhotoUpload c (Some fileArray) st) = photoOffset st"
    by (simp add: handlePhotoUpload_def Let_def)
  moreover have "handlePhotoUpload c None st = st"
    by (simp add: handlePhotoUpload_def)
  moreover have "userPhotos (uploads c evs App_init) \<noteq> []"
    by (rule uploads_nonempty) (simp add: App_init_def DEFAULT_PHOTOS_def)
  ultimately show ?thesis by simp
qed

text \<open>
  A text file alone keeps the default photos; a later upload of one image replaces them
  by that image.
\<close>

theorem upload_without_images_witness:
  "userPhotos (handlePhotoUpload (\<lambda>f. ''blob:'' @ file_name f)
       (Some [\<lparr>file_name = ''notes.txt'', file_type = ''text/plain''\<rparr>]) App_init)
     = DEFAULT_PHOTOS
   \<and> userPhotos (uploads (\<lambda>f. ''blob:'' @ file_name f)
        [Some [\<lparr>file_name = ''notes.txt'', file_type = ''text/plain''\<rparr>],
         Some [\<lparr>file_name = ''a.png'', file_type = ''image/png''\<rparr>]] App_init)
     = [''blob:a.png'']"
  using upload_without_images [where
      fileArray = "[\<lparr>file_name = ''notes.txt'', file_type = ''text/plain''\<rparr>]"
      and c = "\<lambda>f. ''blob:'' @ file_name f" and st = App_init and evs = "[]"]
  by (simp add: App_init_def handlePhotoUpload_def startsWith_def Let_def)

end
